theory Spec2Isabelle
  imports Complex_Main
begin

section \<open>JavaScript numbers\<close>

text \<open>
  Every number of \<^verbatim>\<open>Apps.js\<close> is a JavaScript number. A finite number is modelled by
  the real it denotes, and the three special values are kept as constructors, with the
  IEEE rules for them written out in each operation. Two things are idealised: finite
  arithmetic is exact (no binary64 rounding, no overflow to Infinity), and there is one
  zero, read as \<open>+0\<close> where its sign would matter (a zero divisor in \<open>js_div\<close>).
  The three divisions of \<^verbatim>\<open>useCanjes\<close> never have a zero divisor: \<^verbatim>\<open>planchas\<close> has
  passed the check \<^verbatim>\<open>planchas <= 0\<close>, the sizes are 50, 35 and 10, and \<^verbatim>\<open>p.count\<close>
  divides only in the row of index \<^verbatim>\<open>lastIdx\<close>, where it is \<open>> 0\<close>.
\<close>

datatype jsnum = Fin real | PInf | NInf | NaN

text \<open>Truthiness of a number: \<open>0\<close> and \<open>NaN\<close> are falsy.\<close>

fun js_truthy :: "jsnum \<Rightarrow> bool" where
  "js_truthy (Fin r) = (r \<noteq> 0)"
| "js_truthy PInf = True"
| "js_truthy NInf = True"
| "js_truthy NaN = False"

text \<open>
  \<^verbatim>\<open>Number(x) || 0\<close>, where the argument of the model is the number that \<^verbatim>\<open>Number\<close>
  makes of \<open>x\<close> (\<open>x\<close> itself when it is a number, \<open>NaN\<close> for text that is not one).
\<close>

definition js_or0 :: "jsnum \<Rightarrow> jsnum" where
  "js_or0 x = (if js_truthy x then x else Fin 0)"

text \<open>\<^verbatim>\<open>a < b\<close>, \<^verbatim>\<open>a === b\<close>, \<^verbatim>\<open>a <= b\<close>, \<^verbatim>\<open>a > b\<close>: every comparison with \<open>NaN\<close> is false.\<close>

fun js_lt :: "jsnum \<Rightarrow> jsnum \<Rightarrow> bool" where
  "js_lt (Fin a) (Fin b) = (a < b)"
| "js_lt (Fin a) PInf = True"
| "js_lt NInf (Fin b) = True"
| "js_lt NInf PInf = True"
| "js_lt _ _ = False"

definition js_eq :: "jsnum \<Rightarrow> jsnum \<Rightarrow> bool" where
  "js_eq a b = (a \<noteq> NaN \<and> a = b)"

definition js_le :: "jsnum \<Rightarrow> jsnum \<Rightarrow> bool" where
  "js_le a b = (js_lt a b \<or> js_eq a b)"

definition js_gt :: "jsnum \<Rightarrow> jsnum \<Rightarrow> bool" where
  "js_gt a b = js_lt b a"

fun js_neg :: "jsnum \<Rightarrow> jsnum" where
  "js_neg (Fin a) = Fin (- a)"
| "js_neg PInf = NInf"
| "js_neg NInf = PInf"
| "js_neg NaN = NaN"

fun js_add :: "jsnum \<Rightarrow> jsnum \<Rightarrow> jsnum" where
  "js_add (Fin a) (Fin b) = Fin (a + b)"
| "js_add NaN _ = NaN"
| "js_add _ NaN = NaN"
| "js_add PInf NInf = NaN"
| "js_add NInf PInf = NaN"
| "js_add PInf _ = PInf"
| "js_add _ PInf = PInf"
| "js_add NInf _ = NInf"
| "js_add _ NInf = NInf"

definition js_sub :: "jsnum \<Rightarrow> jsnum \<Rightarrow> jsnum" where
  "js_sub a b = js_add a (js_neg b)"

text \<open>The infinity with the sign of \<open>s\<close>; \<open>NaN\<close> when \<open>s\<close> is zero (\<open>Infinity * 0\<close>).\<close>

definition js_inf :: "real \<Rightarrow> jsnum" where
  "js_inf s = (if 0 < s then PInf else if s < 0 then NInf else NaN)"

fun js_mul :: "jsnum \<Rightarrow> jsnum \<Rightarrow> jsnum" where
  "js_mul (Fin a) (Fin b) = Fin (a * b)"
| "js_mul NaN _ = NaN"
| "js_mul _ NaN = NaN"
| "js_mul (Fin a) PInf = js_inf a"
| "js_mul (Fin a) NInf = js_inf (- a)"
| "js_mul PInf (Fin b) = js_inf b"
| "js_mul NInf (Fin b) = js_inf (- b)"
| "js_mul PInf PInf = PInf"
| "js_mul PInf NInf = NInf"
| "js_mul NInf PInf = NInf"
| "js_mul NInf NInf = PInf"

fun js_div :: "jsnum \<Rightarrow> jsnum \<Rightarrow> jsnum" where
  "js_div (Fin a) (Fin b) = (if b = 0 then js_inf a else Fin (a / b))"
| "js_div NaN _ = NaN"
| "js_div _ NaN = NaN"
| "js_div (Fin a) PInf = Fin 0"
| "js_div (Fin a) NInf = Fin 0"
| "js_div PInf (Fin b) = (if 0 \<le> b then PInf else NInf)"
| "js_div NInf (Fin b) = (if 0 \<le> b then NInf else PInf)"
| "js_div PInf PInf = NaN"
| "js_div PInf NInf = NaN"
| "js_div NInf PInf = NaN"
| "js_div NInf NInf = NaN"

text \<open>\<^verbatim>\<open>Math.floor\<close>, and \<^verbatim>\<open>Math.round\<close> (to the nearest integer, a tie going up).\<close>

fun js_floor :: "jsnum \<Rightarrow> jsnum" where
  "js_floor (Fin a) = Fin (of_int \<lfloor>a\<rfloor>)"
| "js_floor x = x"

fun js_round :: "jsnum \<Rightarrow> jsnum" where
  "js_round (Fin a) = Fin (of_int \<lfloor>a + 1 / 2\<rfloor>)"
| "js_round x = x"

section \<open>The tiers\<close>

text \<open>
  \<^verbatim>\<open>const SCALES = [{ id: 3, name: "Escala 3", size: 50, weight: 12 }, ...]\<close>.
  The fields \<^verbatim>\<open>id\<close> and \<^verbatim>\<open>size\<close> carry a suffix, their names being constants of HOL.
\<close>

record scale =
  id_s :: jsnum
  name :: string
  size_s :: jsnum
  weight :: jsnum

definition SCALES :: "scale list" where
  "SCALES =
    [\<lparr>id_s = Fin 3, name = ''Escala 3'', size_s = Fin 50, weight = Fin 12\<rparr>,
     \<lparr>id_s = Fin 2, name = ''Escala 2'', size_s = Fin 35, weight = Fin 6\<rparr>,
     \<lparr>id_s = Fin 1, name = ''Escala 1'', size_s = Fin 10, weight = Fin 1\<rparr>]"

text \<open>\<^verbatim>\<open>round2(n) = Math.round((Number(n) || 0) * 100) / 100\<close>\<close>

definition round2 :: "jsnum \<Rightarrow> jsnum" where
  "round2 n = js_div (js_round (js_mul (js_or0 n) (Fin 100))) (Fin 100)"

section \<open>useCanjes\<close>

text \<open>An element of \<^verbatim>\<open>premios\<close>: \<^verbatim>\<open>{ ...s, count }\<close>.\<close>

record premio = scale +
  count :: jsnum

record row =
  label :: string
  repetir :: jsnum
  planchasPorRep :: jsnum
  montoPorRep :: jsnum

text \<open>\<^verbatim>\<open>SCALES.map((s) => ({ ...s, count: 0 }))\<close>\<close>

definition with_count0 :: "scale \<Rightarrow> premio" where
  "with_count0 s =
     \<lparr>id_s = id_s s, name = name s, size_s = size_s s, weight = weight s, count = Fin 0\<rparr>"

definition premios0 :: "premio list" where
  "premios0 = map with_count0 SCALES"

text \<open>
  The allocation loop (lines 49 to 54), over the elements still to visit, with
  \<^verbatim>\<open>remaining\<close> as state. It returns the elements with their counts and the final
  \<^verbatim>\<open>remaining\<close>.
\<close>

fun alloc_loop :: "premio list \<Rightarrow> jsnum \<Rightarrow> premio list \<times> jsnum" where
  "alloc_loop [] remaining = ([], remaining)"
| "alloc_loop (s # ss) remaining =
     (let cnt = js_floor (js_div remaining (size_s s));
          remaining' = js_sub remaining (js_mul cnt (size_s s));
          (ps, r) = alloc_loop ss remaining'
      in (s\<lparr>count := cnt\<rparr> # ps, r))"

text \<open>\<^verbatim>\<open>premios.reduce((acc, s) => acc + s.count * s.weight, 0)\<close>\<close>

definition totalPremios :: "premio list \<Rightarrow> jsnum" where
  "totalPremios ps = foldl (\<lambda>acc s. js_add acc (js_mul (count s) (weight s))) (Fin 0) ps"

text \<open>\<^verbatim>\<open>premios.some((p) => p.count > 0)\<close>\<close>

definition anyCount :: "premio list \<Rightarrow> bool" where
  "anyCount ps = list_ex (\<lambda>p. js_gt (count p) (Fin 0)) ps"

text \<open>The loop of lines 73 to 76, from index \<open>i\<close> on.\<close>

fun lastIdx_loop :: "premio list \<Rightarrow> int \<Rightarrow> int \<Rightarrow> int" where
  "lastIdx_loop [] i lastIdx = lastIdx"
| "lastIdx_loop (p # ps) i lastIdx =
     lastIdx_loop ps (i + 1) (if js_gt (count p) (Fin 0) then i else lastIdx)"

text \<open>The \<^verbatim>\<open>forEach\<close> of lines 78 to 90, from index \<open>idx\<close> on: the rows it pushes.\<close>

fun push_rows :: "premio list \<Rightarrow> int \<Rightarrow> int \<Rightarrow> jsnum \<Rightarrow> jsnum \<Rightarrow> row list" where
  "push_rows [] idx lastIdx remaining unitPrice = []"
| "push_rows (p # ps) idx lastIdx remaining unitPrice =
     (if js_eq (count p) (Fin 0) then push_rows ps (idx + 1) lastIdx remaining unitPrice
      else
        (let planchasPorRep =
               (if idx = lastIdx \<and> js_gt remaining (Fin 0)
                then js_add (size_s p) (js_div remaining (count p))
                else size_s p)
         in \<lparr>label = name p, repetir = count p, planchasPorRep = planchasPorRep,
              montoPorRep = js_mul planchasPorRep unitPrice\<rparr>
            # push_rows ps (idx + 1) lastIdx remaining unitPrice))"

text \<open>Lines 59 to 91: the rows, from the allocation, the leftover and the inputs.\<close>

definition build_rows :: "premio list \<Rightarrow> jsnum \<Rightarrow> jsnum \<Rightarrow> jsnum \<Rightarrow> row list" where
  "build_rows ps remaining planchas unitPrice =
     (if \<not> anyCount ps
      then [\<lparr>label = ''Escala 1'', repetir = Fin 1, planchasPorRep = planchas,
             montoPorRep = js_mul planchas unitPrice\<rparr>]
      else push_rows ps 0 (lastIdx_loop ps 0 (- 1)) remaining unitPrice)"

text \<open>The control totals before rounding (lines 94 to 101): planchas, then monto.\<close>

definition sum_rows :: "row list \<Rightarrow> jsnum \<times> jsnum" where
  "sum_rows rs =
     foldl (\<lambda>(pl, mo) r. (js_add pl (js_mul (planchasPorRep r) (repetir r)),
                           js_add mo (js_mul (montoPorRep r) (repetir r))))
       (Fin 0, Fin 0) rs"

text \<open>
  The object \<^verbatim>\<open>totales\<close> of the result. Its fields are \<^verbatim>\<open>planchas\<close>, \<^verbatim>\<open>monto\<close> and
  \<^verbatim>\<open>premios\<close> in the source; the prefix keeps them apart from the result's own
  \<^verbatim>\<open>premios\<close>.
\<close>

record totales_t =
  t_planchas :: jsnum
  t_monto :: jsnum
  t_premios :: jsnum

record canjes =
  unitPrice :: jsnum
  premios :: "premio list"
  aplicativoRows :: "row list"
  totales :: totales_t

definition emptyResult :: canjes where
  "emptyResult =
     \<lparr>unitPrice = Fin 0, premios = [], aplicativoRows = [],
      totales = \<lparr>t_planchas = Fin 0, t_monto = Fin 0, t_premios = Fin 0\<rparr>\<rparr>"

definition useCanjes :: "jsnum \<Rightarrow> jsnum \<Rightarrow> canjes" where
  "useCanjes planchasInput montoInput =
     (let planchas = js_or0 planchasInput;
          monto = js_or0 montoInput
      in if js_le planchas (Fin 0) \<or> js_lt monto (Fin 0) then emptyResult
         else
           (let unitPrice = js_div monto planchas;
                (ps, remaining) = alloc_loop premios0 planchas;
                rws = build_rows ps remaining planchas unitPrice;
                (pl, mo) = sum_rows rws
            in \<lparr>unitPrice = unitPrice, premios = ps, aplicativoRows = rws,
                 totales = \<lparr>t_planchas = round2 pl, t_monto = round2 mo,
                            t_premios = totalPremios ps\<rparr>\<rparr>))"

section \<open>Notions used to state the properties\<close>

text \<open>The allocation report in which the three tiers have the finite counts \<open>ks\<close>.\<close>

definition tier_counts :: "real list \<Rightarrow> premio list" where
  "tier_counts ks = map2 (\<lambda>s k. (with_count0 s)\<lparr>count := Fin k\<rparr>) SCALES ks"

text \<open>A row of finite numbers, its amount being the quantity times the unit price.\<close>

definition fin_row :: "string \<Rightarrow> real \<Rightarrow> real \<Rightarrow> real \<Rightarrow> row" where
  "fin_row l k q u =
     \<lparr>label = l, repetir = Fin k, planchasPorRep = Fin q, montoPorRep = Fin (q * u)\<rparr>"


text \<open>The tier a row is labelled with, and whether the row's quantity reaches its size.\<close>

definition scale_of_label :: "string \<Rightarrow> scale option" where
  "scale_of_label l = find (\<lambda>s. name s = l) SCALES"

definition row_fills_tier :: "row \<Rightarrow> bool" where
  "row_fills_tier r =
     (case scale_of_label (label r) of
        None \<Rightarrow> False
      | Some s \<Rightarrow> js_le (size_s s) (planchasPorRep r))"

text \<open>The names of the tiers whose count is not \<open>0\<close>, in the order of the report.\<close>

definition nonzero_tier_names :: "premio list \<Rightarrow> string list" where
  "nonzero_tier_names ps = map name (filter (\<lambda>p. \<not> js_eq (count p) (Fin 0)) ps)"

section \<open>The allocation loop on a finite count\<close>

text \<open>One step of the loop: the quotient is not negative and the leftover is below the size.\<close>

lemma floor_step:
  fixes x s :: real
  assumes "0 \<le> x" "0 < s"
  shows "0 \<le> real_of_int \<lfloor>x / s\<rfloor>"
    and "0 \<le> x - real_of_int \<lfloor>x / s\<rfloor> * s"
    and "x - real_of_int \<lfloor>x / s\<rfloor> * s < s"
proof -
  from assms have "0 \<le> x / s" by simp
  then show "0 \<le> real_of_int \<lfloor>x / s\<rfloor>" by simp
  have "real_of_int \<lfloor>x / s\<rfloor> * s \<le> (x / s) * s"
    using assms by (intro mult_right_mono) simp_all
  with assms show "0 \<le> x - real_of_int \<lfloor>x / s\<rfloor> * s" by simp
  have "x / s < real_of_int \<lfloor>x / s\<rfloor> + 1" by linarith
  then have "(x / s) * s < (real_of_int \<lfloor>x / s\<rfloor> + 1) * s"
    using assms by (intro mult_strict_right_mono)
  with assms have "x < (real_of_int \<lfloor>x / s\<rfloor> + 1) * s" by simp
  then show "x - real_of_int \<lfloor>x / s\<rfloor> * s < s" by (simp add: algebra_simps)
qed

lemma alloc_premios0:
  "alloc_loop premios0 (Fin c) =
     (let k1 = real_of_int \<lfloor>c / 50\<rfloor>; r1 = c - k1 * 50;
          k2 = real_of_int \<lfloor>r1 / 35\<rfloor>; r2 = r1 - k2 * 35;
          k3 = real_of_int \<lfloor>r2 / 10\<rfloor>; r3 = r2 - k3 * 10
      in (tier_counts [k1, k2, k3], Fin r3))"
  by (simp add: premios0_def SCALES_def with_count0_def tier_counts_def js_sub_def Let_def)

lemma alloc_shape:
  assumes "0 \<le> c"
  shows "\<exists>k1 k2 k3 r. alloc_loop premios0 (Fin c) = (tier_counts [k1, k2, k3], Fin r)
           \<and> 0 \<le> k1 \<and> 0 \<le> k2 \<and> 0 \<le> k3 \<and> 0 \<le> r \<and> r < 10
           \<and> k1 * 50 + k2 * 35 + k3 * 10 + r = c
           \<and> (c < 10 \<longrightarrow> k1 = 0 \<and> k2 = 0 \<and> k3 = 0)
           \<and> (10 \<le> c \<longrightarrow> 0 < k1 \<or> 0 < k2 \<or> 0 < k3)"
proof -
  define k1 where "k1 = real_of_int \<lfloor>c / 50\<rfloor>"
  define r1 where "r1 = c - k1 * 50"
  define k2 where "k2 = real_of_int \<lfloor>r1 / 35\<rfloor>"
  define r2 where "r2 = r1 - k2 * 35"
  define k3 where "k3 = real_of_int \<lfloor>r2 / 10\<rfloor>"
  define r3 where "r3 = r2 - k3 * 10"
  have a: "alloc_loop premios0 (Fin c) = (tier_counts [k1, k2, k3], Fin r3)"
    by (simp add: alloc_premios0 Let_def k1_def r1_def k2_def r2_def k3_def r3_def)
  have s1: "0 \<le> k1" "0 \<le> r1" "r1 < 50"
    using floor_step [of c 50] assms by (simp_all add: k1_def r1_def)
  have s2: "0 \<le> k2" "0 \<le> r2" "r2 < 35"
    using floor_step [of r1 35] s1 by (simp_all add: k2_def r2_def)
  have s3: "0 \<le> k3" "0 \<le> r3" "r3 < 10"
    using floor_step [of r2 10] s2 by (simp_all add: k3_def r3_def)
  have tot: "k1 * 50 + k2 * 35 + k3 * 10 + r3 = c"
    by (simp add: r3_def r2_def r1_def)
  have small: "k1 = 0 \<and> k2 = 0 \<and> k3 = 0" if "c < 10"
  proof -
    have "k1 * 50 \<le> c" "k2 * 35 \<le> c" "k3 * 10 \<le> c" using tot s1 s2 s3 by linarith+
    then have "k1 < 1" "k2 < 1" "k3 < 1" using that by linarith+
    then have "\<lfloor>c / 50\<rfloor> < 1" "\<lfloor>r1 / 35\<rfloor> < 1" "\<lfloor>r2 / 10\<rfloor> < 1"
      unfolding k1_def k2_def k3_def by linarith+
    moreover have "0 \<le> \<lfloor>c / 50\<rfloor>" "0 \<le> \<lfloor>r1 / 35\<rfloor>" "0 \<le> \<lfloor>r2 / 10\<rfloor>"
      using s1 s2 s3 unfolding k1_def k2_def k3_def by linarith+
    ultimately have "\<lfloor>c / 50\<rfloor> = 0" "\<lfloor>r1 / 35\<rfloor> = 0" "\<lfloor>r2 / 10\<rfloor> = 0" by linarith+
    then show ?thesis by (simp add: k1_def k2_def k3_def)
  qed
  have big: "0 < k1 \<or> 0 < k2 \<or> 0 < k3" if "10 \<le> c"
  proof (rule ccontr)
    assume "\<not> ?thesis"
    with s1 s2 s3 have "k1 = 0" "k2 = 0" "k3 = 0" by linarith+
    with tot have "r3 = c" by simp
    with s3 that show False by simp
  qed
  from a s1 s2 s3 tot small big show ?thesis by blast
qed

lemma tier_counts_explicit:
  "tier_counts [k1, k2, k3] =
     [\<lparr>id_s = Fin 3, name = ''Escala 3'', size_s = Fin 50, weight = Fin 12, count = Fin k1\<rparr>,
      \<lparr>id_s = Fin 2, name = ''Escala 2'', size_s = Fin 35, weight = Fin 6, count = Fin k2\<rparr>,
      \<lparr>id_s = Fin 1, name = ''Escala 1'', size_s = Fin 10, weight = Fin 1, count = Fin k3\<rparr>]"
  by (simp add: tier_counts_def SCALES_def with_count0_def)


lemma totalPremios_counts:
  "totalPremios (tier_counts [k1, k2, k3]) = Fin (k1 * 12 + k2 * 6 + k3 * 1)"
  by (simp add: totalPremios_def tier_counts_explicit)

lemma nonzero_names_counts:
  "nonzero_tier_names (tier_counts [k1, k2, k3]) =
     (if k1 = 0 then [] else [''Escala 3'']) @ (if k2 = 0 then [] else [''Escala 2'']) @
     (if k3 = 0 then [] else [''Escala 1''])"
  by (simp add: nonzero_tier_names_def tier_counts_explicit js_eq_def)

section \<open>The rows of an allocation\<close>

lemma build_rows_none:
  "build_rows (tier_counts [0, 0, 0]) r p u =
     [\<lparr>label = ''Escala 1'', repetir = Fin 1, planchasPorRep = p, montoPorRep = js_mul p u\<rparr>]"
  by (simp add: build_rows_def anyCount_def tier_counts_explicit js_gt_def)

text \<open>
  With some tier awarded there is one row for each tier with a count, and the last of
  them takes the leftover, shared among its repetitions.
\<close>

lemma build_rows_counts:
  assumes "0 \<le> k1" "0 \<le> k2" "0 \<le> k3" "0 < k1 \<or> 0 < k2 \<or> 0 < k3"
  shows "build_rows (tier_counts [k1, k2, k3]) (Fin r) (Fin c) (Fin u) =
     (if k1 = 0 then []
      else [fin_row ''Escala 3'' k1 (if k2 = 0 \<and> k3 = 0 \<and> 0 < r then 50 + r / k1 else 50) u]) @
     (if k2 = 0 then []
      else [fin_row ''Escala 2'' k2 (if k3 = 0 \<and> 0 < r then 35 + r / k2 else 35) u]) @
     (if k3 = 0 then []
      else [fin_row ''Escala 1'' k3 (if 0 < r then 10 + r / k3 else 10) u])"
  using assms
  by (simp add: build_rows_def anyCount_def tier_counts_explicit fin_row_def js_gt_def js_eq_def)


lemma label_fin_row: "label (fin_row l k q u) = l"
  by (simp add: fin_row_def)

lemma fills_tier_fin_row:
  "row_fills_tier (fin_row ''Escala 3'' k q u) = (50 \<le> q)"
  "row_fills_tier (fin_row ''Escala 2'' k q u) = (35 \<le> q)"
  "row_fills_tier (fin_row ''Escala 1'' k q u) = (10 \<le> q)"
  by (auto simp add: row_fills_tier_def scale_of_label_def SCALES_def fin_row_def
      js_le_def js_eq_def)

section \<open>The pipeline on a valid input\<close>

lemma useCanjes_valid:
  assumes "0 < c" "0 \<le> m"
  shows "useCanjes (Fin c) (Fin m) =
     (let (ps, remaining) = alloc_loop premios0 (Fin c);
          rws = build_rows ps remaining (Fin c) (Fin (m / c));
          (pl, mo) = sum_rows rws
      in \<lparr>unitPrice = Fin (m / c), premios = ps, aplicativoRows = rws,
           totales = \<lparr>t_planchas = round2 pl, t_monto = round2 mo,
                      t_premios = totalPremios ps\<rparr>\<rparr>)"
  using assms by (simp add: useCanjes_def js_or0_def js_le_def js_eq_def Let_def)

lemma rows_valid:
  assumes "0 < c" "0 \<le> m"
  shows "\<exists>k1 k2 k3 r.
      alloc_loop premios0 (Fin c) = (tier_counts [k1, k2, k3], Fin r)
    \<and> premios (useCanjes (Fin c) (Fin m)) = tier_counts [k1, k2, k3]
    \<and> aplicativoRows (useCanjes (Fin c) (Fin m)) =
        build_rows (tier_counts [k1, k2, k3]) (Fin r) (Fin c) (Fin (m / c))
    \<and> 0 \<le> k1 \<and> 0 \<le> k2 \<and> 0 \<le> k3 \<and> 0 \<le> r \<and> r < 10
    \<and> k1 * 50 + k2 * 35 + k3 * 10 + r = c
    \<and> (c < 10 \<longrightarrow> k1 = 0 \<and> k2 = 0 \<and> k3 = 0)
    \<and> (10 \<le> c \<longrightarrow> 0 < k1 \<or> 0 < k2 \<or> 0 < k3)"
proof -
  from assms have "0 \<le> c" by simp
  from alloc_shape [OF this] obtain k1 k2 k3 r where
    a: "alloc_loop premios0 (Fin c) = (tier_counts [k1, k2, k3], Fin r)"
    and b: "0 \<le> k1 \<and> 0 \<le> k2 \<and> 0 \<le> k3 \<and> 0 \<le> r \<and> r < 10
    \<and> k1 * 50 + k2 * 35 + k3 * 10 + r = c
    \<and> (c < 10 \<longrightarrow> k1 = 0 \<and> k2 = 0 \<and> k3 = 0)
    \<and> (10 \<le> c \<longrightarrow> 0 < k1 \<or> 0 < k2 \<or> 0 < k3)" by blast
  have "premios (useCanjes (Fin c) (Fin m)) = tier_counts [k1, k2, k3]"
    by (simp add: useCanjes_valid [OF assms] a Let_def split: prod.splits)
  moreover have "aplicativoRows (useCanjes (Fin c) (Fin m)) =
      build_rows (tier_counts [k1, k2, k3]) (Fin r) (Fin c) (Fin (m / c))"
    by (simp add: useCanjes_valid [OF assms] a Let_def split: prod.splits)
  ultimately show ?thesis using a b by blast
qed

lemma totales_valid:
  assumes "0 < c" "0 \<le> m"
  shows "totales (useCanjes (Fin c) (Fin m)) =
     \<lparr>t_planchas = round2 (fst (sum_rows (aplicativoRows (useCanjes (Fin c) (Fin m))))),
      t_monto = round2 (snd (sum_rows (aplicativoRows (useCanjes (Fin c) (Fin m))))),
      t_premios = totalPremios (premios (useCanjes (Fin c) (Fin m)))\<rparr>"
  by (simp add: useCanjes_valid [OF assms] Let_def split: prod.splits)



lemma useCanjes_7_700:
  "premios (useCanjes (Fin 7) (Fin 700)) = tier_counts [0, 0, 0]"
  "aplicativoRows (useCanjes (Fin 7) (Fin 700)) =
     [\<lparr>label = ''Escala 1'', repetir = Fin 1, planchasPorRep = Fin 7, montoPorRep = Fin 700\<rparr>]"
proof -
  have a: "alloc_loop premios0 (Fin 7) = (tier_counts [0, 0, 0], Fin 7)"
    by (simp add: alloc_premios0 Let_def)
  show "premios (useCanjes (Fin 7) (Fin 700)) = tier_counts [0, 0, 0]"
    by (simp add: useCanjes_valid a Let_def split: prod.splits)
  show "aplicativoRows (useCanjes (Fin 7) (Fin 700)) =
     [\<lparr>label = ''Escala 1'', repetir = Fin 1, planchasPorRep = Fin 7, montoPorRep = Fin 700\<rparr>]"
    by (simp add: useCanjes_valid a build_rows_none Let_def split: prod.splits)
qed

section \<open>The properties\<close>





text \<open>
  C3 (anchor spreading). For the count 75 and the amount 7500 the unit price is 100, the
  allocation is one award of the tier of size 50, none of size 35 and two of size 10
  with a leftover of 5, and there are two rows: the tier of size 50 once with 50 units
  and 5000, and the tier of size 10 twice with 12.5 units and 1250 each. The control totals
  are 75 units and 7500.
\<close>

theorem anchor_spreading_75_7500:
  "useCanjes (Fin 75) (Fin 7500) =
     \<lparr>unitPrice = Fin 100,
      premios =
        [\<lparr>id_s = Fin 3, name = ''Escala 3'', size_s = Fin 50, weight = Fin 12, count = Fin 1\<rparr>,
         \<lparr>id_s = Fin 2, name = ''Escala 2'', size_s = Fin 35, weight = Fin 6, count = Fin 0\<rparr>,
         \<lparr>id_s = Fin 1, name = ''Escala 1'', size_s = Fin 10, weight = Fin 1, count = Fin 2\<rparr>],
      aplicativoRows =
        [\<lparr>label = ''Escala 3'', repetir = Fin 1, planchasPorRep = Fin 50,
          montoPorRep = Fin 5000\<rparr>,
         \<lparr>label = ''Escala 1'', repetir = Fin 2, planchasPorRep = Fin (25 / 2),
          montoPorRep = Fin 1250\<rparr>],
      totales = \<lparr>t_planchas = Fin 75, t_monto = Fin 7500, t_premios = Fin 14\<rparr>\<rparr>
   \<and> snd (alloc_loop premios0 (Fin 75)) = Fin 5"
proof -
  have a: "alloc_loop premios0 (Fin 75) = (tier_counts [1, 0, 2], Fin 5)"
    by (simp add: alloc_premios0 Let_def)
  have b: "build_rows (tier_counts [1, 0, 2]) (Fin 5) (Fin 75) (Fin 100) =
        [\<lparr>label = ''Escala 3'', repetir = Fin 1, planchasPorRep = Fin 50,
          montoPorRep = Fin 5000\<rparr>,
         \<lparr>label = ''Escala 1'', repetir = Fin 2, planchasPorRep = Fin (25 / 2),
          montoPorRep = Fin 1250\<rparr>]"
    by (simp add: build_rows_counts fin_row_def)
  have c: "sum_rows (build_rows (tier_counts [1, 0, 2]) (Fin 5) (Fin 75) (Fin 100)) =
        (Fin 75, Fin 7500)"
    unfolding b by (simp add: sum_rows_def)
  have d: "round2 (Fin 75) = Fin 75" "round2 (Fin 7500) = Fin 7500"
    by (simp_all add: round2_def js_or0_def)
  have e: "totalPremios (tier_counts [1, 0, 2]) = Fin 14"
    by (simp add: totalPremios_counts)
  have u: "useCanjes (Fin 75) (Fin 7500) =
     \<lparr>unitPrice = Fin 100, premios = tier_counts [1, 0, 2],
      aplicativoRows = build_rows (tier_counts [1, 0, 2]) (Fin 5) (Fin 75) (Fin 100),
      totales = \<lparr>t_planchas = Fin 75, t_monto = Fin 7500, t_premios = Fin 14\<rparr>\<rparr>"
    by (simp add: useCanjes_valid a c d e Let_def)
  show ?thesis unfolding u b a by (simp add: tier_counts_explicit)
qed


text \<open>
  C5 (sentinel). Whenever the count is \<open>\<le> 0\<close> or the amount is \<open>< 0\<close> the result is the
  empty one: unit price 0, no allocation entries, no rows, and the three control totals
  0.
\<close>

theorem sentinel_result:
  assumes "js_le planchasInput (Fin 0) \<or> js_lt montoInput (Fin 0)"
  shows "useCanjes planchasInput montoInput =
     \<lparr>unitPrice = Fin 0, premios = [], aplicativoRows = [],
      totales = \<lparr>t_planchas = Fin 0, t_monto = Fin 0, t_premios = Fin 0\<rparr>\<rparr>"
proof -
  have "js_le (js_or0 planchasInput) (Fin 0) \<or> js_lt (js_or0 montoInput) (Fin 0)"
    using assms
    by (cases planchasInput; cases montoInput) (auto simp add: js_or0_def js_le_def js_eq_def)
  then show ?thesis by (simp add: useCanjes_def emptyResult_def Let_def)
qed

theorem sentinel_result_witness:
  "(js_le (Fin (- 5)) (Fin 0) \<or> js_lt (Fin 100) (Fin 0)) \<and>
   useCanjes (Fin (- 5)) (Fin 100) =
     \<lparr>unitPrice = Fin 0, premios = [], aplicativoRows = [],
      totales = \<lparr>t_planchas = Fin 0, t_monto = Fin 0, t_premios = Fin 0\<rparr>\<rparr> \<and>
   (js_le (Fin 0) (Fin 0) \<or> js_lt (Fin 100) (Fin 0)) \<and>
   useCanjes (Fin 0) (Fin 100) =
     \<lparr>unitPrice = Fin 0, premios = [], aplicativoRows = [],
      totales = \<lparr>t_planchas = Fin 0, t_monto = Fin 0, t_premios = Fin 0\<rparr>\<rparr> \<and>
   (js_le (Fin 75) (Fin 0) \<or> js_lt (Fin (- 1)) (Fin 0)) \<and>
   useCanjes (Fin 75) (Fin (- 1)) =
     \<lparr>unitPrice = Fin 0, premios = [], aplicativoRows = [],
      totales = \<lparr>t_planchas = Fin 0, t_monto = Fin 0, t_premios = Fin 0\<rparr>\<rparr>"
  using sentinel_result [of "Fin (- 5)" "Fin 100"] sentinel_result [of "Fin 0" "Fin 100"]
    sentinel_result [of "Fin 75" "Fin (- 1)"]
  by (simp add: js_le_def js_eq_def)

text \<open>
  C6 (degenerate small case). For every finite count \<open>c\<close> with \<open>0 < c < 10\<close> (and an
  amount \<open>m \<ge> 0\<close>) there is exactly one row: labelled \<open>Escala 1\<close>, repeated once, with the
  whole count as quantity and the count times the unit price as amount.
\<close>

theorem degenerate_small_row:
  assumes "0 < c" "c < 10" "0 \<le> m"
  shows "unitPrice (useCanjes (Fin c) (Fin m)) = Fin (m / c) \<and>
         aplicativoRows (useCanjes (Fin c) (Fin m)) =
           [\<lparr>label = ''Escala 1'', repetir = Fin 1, planchasPorRep = Fin c,
             montoPorRep = js_mul (Fin c) (unitPrice (useCanjes (Fin c) (Fin m)))\<rparr>]"
proof -
  have u: "unitPrice (useCanjes (Fin c) (Fin m)) = Fin (m / c)"
    using assms by (simp add: useCanjes_valid Let_def split: prod.splits)
  from rows_valid [of c m] assms obtain k1 k2 k3 r where
    "aplicativoRows (useCanjes (Fin c) (Fin m)) =
         build_rows (tier_counts [k1, k2, k3]) (Fin r) (Fin c) (Fin (m / c))"
    "c < 10 \<longrightarrow> k1 = 0 \<and> k2 = 0 \<and> k3 = 0" by blast
  with assms u show ?thesis by (simp add: build_rows_none)
qed

theorem degenerate_small_row_witness:
  "(0::real) < 7 \<and> (7::real) < 10 \<and> (0::real) \<le> 700 \<and>
   unitPrice (useCanjes (Fin 7) (Fin 700)) = Fin 100 \<and>
   aplicativoRows (useCanjes (Fin 7) (Fin 700)) =
     [\<lparr>label = ''Escala 1'', repetir = Fin 1, planchasPorRep = Fin 7, montoPorRep = Fin 700\<rparr>]"
  using degenerate_small_row [of 7 700] by simp



text \<open>
  C8 (inputs that are not finite), as the code has it. \<open>NaN\<close> is coerced to 0 before
  the sentinel checks: a \<open>NaN\<close> count gives the result of the count 0, which is the empty
  result, and a \<open>NaN\<close> amount gives the result of the amount 0. The negative infinity is
  not coerced, and gives the empty result as any negative number does. The positive
  infinity is not coerced either, and passes both checks.
\<close>

theorem nan_coerced_to_zero:
  "js_or0 NaN = Fin 0
   \<and> useCanjes NaN montoInput = useCanjes (Fin 0) montoInput
   \<and> useCanjes (Fin 0) montoInput = emptyResult
   \<and> useCanjes planchasInput NaN = useCanjes planchasInput (Fin 0)
   \<and> useCanjes NInf montoInput = emptyResult
   \<and> useCanjes planchasInput NInf = emptyResult"
  by (simp add: useCanjes_def js_or0_def js_le_def js_eq_def)

text \<open>
  The claim as the specification words it fails: the positive infinity is not coerced
  to 0, an infinite count or amount does not give the empty result, and neither does
  a \<open>NaN\<close> amount with the count 75.
\<close>

theorem nonfinite_not_sentinel:
  "js_or0 PInf \<noteq> Fin 0
   \<and> useCanjes PInf (Fin 100) \<noteq> useCanjes (Fin 0) (Fin 100)
   \<and> useCanjes (Fin 75) NaN \<noteq> useCanjes (Fin 0) NaN
   \<and> useCanjes (Fin 75) PInf \<noteq> useCanjes (Fin 0) PInf"
proof -
  have z: "useCanjes (Fin 0) m = emptyResult" for m
    by (simp add: useCanjes_def js_or0_def js_le_def js_eq_def)
  have a: "unitPrice (useCanjes (Fin 75) PInf) = PInf"
    by (simp add: useCanjes_def js_or0_def js_le_def js_eq_def Let_def split: prod.splits)
  have b: "premios (useCanjes (Fin 75) NaN) = tier_counts [1, 0, 2]"
    by (simp add: useCanjes_def js_or0_def js_le_def js_eq_def Let_def alloc_premios0
        split: prod.splits)
  have c: "premios (useCanjes PInf (Fin 100)) \<noteq> []"
    by (simp add: useCanjes_def js_or0_def js_le_def js_eq_def Let_def premios0_def SCALES_def
        split: prod.splits)
  have "useCanjes (Fin 75) PInf \<noteq> emptyResult"
    using a by (auto simp: emptyResult_def)
  moreover have "useCanjes (Fin 75) NaN \<noteq> emptyResult"
    using b by (auto simp: emptyResult_def tier_counts_explicit)
  moreover have "useCanjes PInf (Fin 100) \<noteq> emptyResult"
    using c by (auto simp: emptyResult_def)
  ultimately show ?thesis by (simp add: z js_or0_def)
qed

text \<open>
  C9 (quantity of a row against the size of its tier), as the code has it. For every
  finite count \<open>c \<ge> 10\<close> and amount \<open>m \<ge> 0\<close>, every row carries the name of a tier and a
  quantity-per-repetition that is at least the size of that tier.
\<close>

theorem row_quantity_ge_size:
  assumes "10 \<le> c" "0 \<le> m"
  shows "list_all row_fills_tier (aplicativoRows (useCanjes (Fin c) (Fin m)))"
proof -
  from rows_valid [of c m] assms obtain k1 k2 k3 r where
    rw: "aplicativoRows (useCanjes (Fin c) (Fin m)) =
         build_rows (tier_counts [k1, k2, k3]) (Fin r) (Fin c) (Fin (m / c))"
    and k: "0 \<le> k1" "0 \<le> k2" "0 \<le> k3" "0 \<le> r"
    and big: "0 < k1 \<or> 0 < k2 \<or> 0 < k3" by auto
  have q: "0 \<le> r / k1" "0 \<le> r / k2" "0 \<le> r / k3" using k by simp_all
  show ?thesis
    unfolding rw build_rows_counts [OF k(1-3) big]
    using q by (simp add: fills_tier_fin_row)
qed

theorem row_quantity_ge_size_witness:
  "(10::real) \<le> 75 \<and> (0::real) \<le> 7500 \<and>
   list_all row_fills_tier (aplicativoRows (useCanjes (Fin 75) (Fin 7500)))"
  using row_quantity_ge_size [of 75 7500] by simp

text \<open>
  Below 10 units the claim fails: the count 7 gives one row labelled \<open>Escala 1\<close>, a tier
  of size 10, with the quantity 7.
\<close>

theorem row_quantity_below_size_at_7:
  "\<not> list_all row_fills_tier (aplicativoRows (useCanjes (Fin 7) (Fin 700)))"
  by (simp add: useCanjes_7_700 row_fills_tier_def scale_of_label_def SCALES_def
      js_le_def js_eq_def)

text \<open>
  C10 (the report against the rows), as the code has it. For every finite count
  \<open>c > 0\<close> and amount \<open>m \<ge> 0\<close> the report has one entry for each tier, in the order
  of sizes 50, 35, 10, zero counts included, and the score is the sum of count times weight
  (12, 6 and 1). When \<open>c \<ge> 10\<close> the rows are those of the tiers whose count is not 0, in
  that order, so no tier with the count 0 has a row. When \<open>c < 10\<close> every count is 0
  and the one row carries the name of the smallest tier.
\<close>

theorem report_and_rows:
  assumes "0 < c" "0 \<le> m"
  shows "\<exists>k1 k2 k3.
      premios (useCanjes (Fin c) (Fin m)) = tier_counts [k1, k2, k3]
    \<and> t_premios (totales (useCanjes (Fin c) (Fin m))) = Fin (k1 * 12 + k2 * 6 + k3 * 1)
    \<and> (10 \<le> c \<longrightarrow> map label (aplicativoRows (useCanjes (Fin c) (Fin m))) =
           nonzero_tier_names (premios (useCanjes (Fin c) (Fin m))))
    \<and> (c < 10 \<longrightarrow> k1 = 0 \<and> k2 = 0 \<and> k3 = 0 \<and>
           map label (aplicativoRows (useCanjes (Fin c) (Fin m))) = [''Escala 1''])"
proof -
  from rows_valid [OF assms] obtain k1 k2 k3 r where
    pr: "premios (useCanjes (Fin c) (Fin m)) = tier_counts [k1, k2, k3]"
    and rw: "aplicativoRows (useCanjes (Fin c) (Fin m)) =
         build_rows (tier_counts [k1, k2, k3]) (Fin r) (Fin c) (Fin (m / c))"
    and k: "0 \<le> k1" "0 \<le> k2" "0 \<le> k3"
    and small: "c < 10 \<longrightarrow> k1 = 0 \<and> k2 = 0 \<and> k3 = 0"
    and big: "10 \<le> c \<longrightarrow> 0 < k1 \<or> 0 < k2 \<or> 0 < k3" by blast
  have sc: "t_premios (totales (useCanjes (Fin c) (Fin m))) = Fin (k1 * 12 + k2 * 6 + k3 * 1)"
    by (simp add: totales_valid [OF assms] pr totalPremios_counts)
  have a: "map label (aplicativoRows (useCanjes (Fin c) (Fin m))) =
           nonzero_tier_names (premios (useCanjes (Fin c) (Fin m)))" if "10 \<le> c"
  proof -
    from big that have "0 < k1 \<or> 0 < k2 \<or> 0 < k3" by simp
    from build_rows_counts [OF k this] show ?thesis
      by (simp add: rw pr nonzero_names_counts label_fin_row)
  qed
  have b: "k1 = 0 \<and> k2 = 0 \<and> k3 = 0 \<and>
           map label (aplicativoRows (useCanjes (Fin c) (Fin m))) = [''Escala 1'']" if "c < 10"
  proof -
    from small that have "k1 = 0" "k2 = 0" "k3 = 0" by simp_all
    then show ?thesis by (simp add: rw build_rows_none)
  qed
  show ?thesis
    by (rule exI [of _ k1], rule exI [of _ k2], rule exI [of _ k3]) (use pr sc a b in simp)
qed

theorem report_and_rows_witness:
  "(0::real) < 75 \<and> (0::real) \<le> 7500 \<and> (10::real) \<le> 75 \<and> (\<exists>k1 k2 k3.
      premios (useCanjes (Fin 75) (Fin 7500)) = tier_counts [k1, k2, k3]
    \<and> t_premios (totales (useCanjes (Fin 75) (Fin 7500))) = Fin (k1 * 12 + k2 * 6 + k3 * 1)
    \<and> map label (aplicativoRows (useCanjes (Fin 75) (Fin 7500))) =
           nonzero_tier_names (premios (useCanjes (Fin 75) (Fin 7500))))
   \<and> (0::real) < 7 \<and> (0::real) \<le> 700 \<and> (7::real) < 10 \<and>
     premios (useCanjes (Fin 7) (Fin 700)) = tier_counts [0, 0, 0]
    \<and> t_premios (totales (useCanjes (Fin 7) (Fin 700))) = Fin 0
    \<and> map label (aplicativoRows (useCanjes (Fin 7) (Fin 700))) = [''Escala 1'']"
  using report_and_rows [of 75 7500] report_and_rows [of 7 700] by auto

text \<open>
  Below 10 units the last part of the claim fails: at the count 7 the one row is
  labelled \<open>Escala 1\<close>, and the count of that tier is 0.
\<close>

theorem zero_tier_row_at_7:
  "\<not> set (map label (aplicativoRows (useCanjes (Fin 7) (Fin 700))))
       \<subseteq> set (nonzero_tier_names (premios (useCanjes (Fin 7) (Fin 700))))"
  by (simp add: useCanjes_7_700 nonzero_names_counts)

end
